theory Spec2Isabelle
  imports Main "HOL-Library.Word"
begin

section \<open>Epoch-batched staking message server (x/staking/keeper/msg\_server.go)\<close>

text \<open>
  The five handlers of \<^verbatim>\<open>msgServer\<close> are embedded as functions that take the ledger
  context and return the context as the call leaves it, together with Go's two results
  (the response pointer and the error). The keeper's collaborators whose code lives in
  other packages (address decoding, the bank keeper, the staking hooks, the epoch clock,
  the epoch-time application of redelegations and undelegations) are fields of the
  record \<open>Keeper\<close>: every theorem about a handler holds for every choice of them.
\<close>

subsection \<open>Scalars, addresses and errors\<close>

type_synonym int64 = "64 word"

text \<open>\<^verbatim>\<open>time.Time\<close> as a point on an integer time line.\<close>
type_synonym Time = int

text \<open>\<^verbatim>\<open>sdk.Int\<close> is an unbounded integer; \<^verbatim>\<open>sdk.Dec\<close> a fixed-point number, held as
  its unbounded integer mantissa.\<close>
type_synonym sdkInt = int
type_synonym sdkDec = int

text \<open>Decoded addresses are byte strings.\<close>
type_synonym ValAddress = string
type_synonym AccAddress = string
type_synonym ConsAddress = string

text \<open>
  The registered errors the handlers name, \<^verbatim>\<open>sdkerrors.Wrapf\<close> as a constructor, and
  \<open>ErrExternal\<close> for an error value produced inside a collaborator.
\<close>
datatype error =
    ErrValidatorOwnerExists
  | ErrValidatorPubKeyExists
  | ErrBadDenom
  | ErrValidatorPubKeyTypeNotSupported
  | ErrInvalidType
  | ErrExternal string
  | Wrapf error string

text \<open>The error kind: the registered error under the wrapping.\<close>
primrec kind :: "error \<Rightarrow> error" where
  "kind ErrValidatorOwnerExists = ErrValidatorOwnerExists"
| "kind ErrValidatorPubKeyExists = ErrValidatorPubKeyExists"
| "kind ErrBadDenom = ErrBadDenom"
| "kind ErrValidatorPubKeyTypeNotSupported = ErrValidatorPubKeyTypeNotSupported"
| "kind ErrInvalidType = ErrInvalidType"
| "kind (ErrExternal s) = ErrExternal s"
| "kind (Wrapf e s) = kind e"

text \<open>Go prints a \<^verbatim>\<open>[]string\<close> under \<^verbatim>\<open>%s\<close> as its elements between brackets.\<close>
fun join_space :: "string list \<Rightarrow> string" where
  "join_space [] = []"
| "join_space [x] = x"
| "join_space (x # y # ys) = x @ '' '' @ join_space (y # ys)"

definition fmt_strings :: "string list \<Rightarrow> string" where
  "fmt_strings xs = ''['' @ join_space xs @ '']''"

text \<open>\<^verbatim>\<open>tmstrings.StringInSlice\<close>.\<close>
definition StringInSlice :: "string \<Rightarrow> string list \<Rightarrow> bool" where
  "StringInSlice a xs = (a \<in> set xs)"

subsection \<open>Messages and responses\<close>

record Coin =
  Denom :: string
  Amount :: sdkInt

record Description =
  Moniker :: string
  Identity :: string
  Website :: string
  SecurityContact :: string
  Details :: string

record CommissionRates =
  Rate :: sdkDec
  MaxRate :: sdkDec
  MaxChangeRate :: sdkDec

record Commission =
  Rates :: CommissionRates
  UpdateTime :: Time

text \<open>A \<^verbatim>\<open>cryptotypes.PubKey\<close> is an interface: the record holds what its methods return.\<close>
record PubKey =
  pk_Address :: string
  pk_Bytes :: string
  pk_Type :: string

text \<open>
  \<open>cv_Pubkey\<close> is the \<^verbatim>\<open>Any\<close> of the message seen through
  \<^verbatim>\<open>GetCachedValue().(cryptotypes.PubKey)\<close>: \<open>None\<close> when the assertion fails.
\<close>
record MsgCreateValidator =
  cv_Description :: Description
  cv_Commission :: CommissionRates
  cv_MinSelfDelegation :: sdkInt
  cv_DelegatorAddress :: string
  cv_ValidatorAddress :: string
  cv_Pubkey :: "PubKey option"
  cv_Value :: Coin

record MsgEditValidator =
  ev_Description :: Description
  ev_ValidatorAddress :: string
  ev_CommissionRate :: "sdkDec option"
  ev_MinSelfDelegation :: "sdkInt option"

record MsgDelegate =
  d_DelegatorAddress :: string
  d_ValidatorAddress :: string
  d_Amount :: Coin

record MsgBeginRedelegate =
  r_DelegatorAddress :: string
  r_ValidatorSrcAddress :: string
  r_ValidatorDstAddress :: string
  r_Amount :: Coin

record MsgUndelegate =
  u_DelegatorAddress :: string
  u_ValidatorAddress :: string
  u_Amount :: Coin

datatype MsgCreateValidatorResponse = MsgCreateValidatorResponse
datatype MsgEditValidatorResponse = MsgEditValidatorResponse
datatype MsgDelegateResponse = MsgDelegateResponse

record MsgBeginRedelegateResponse =
  r_CompletionTime :: Time

record MsgUndelegateResponse =
  u_CompletionTime :: Time

text \<open>The \<^verbatim>\<open>sdk.Msg\<close> handed to \<^verbatim>\<open>SaveEpochAction\<close>, one variant per message type.\<close>
datatype EpochAction =
    ActCreateValidator MsgCreateValidator
  | ActEditValidator MsgEditValidator
  | ActDelegate MsgDelegate
  | ActBeginRedelegate MsgBeginRedelegate
  | ActUndelegate MsgUndelegate

subsection \<open>Validators\<close>

datatype BondStatus = Unspecified | Unbonded | Unbonding | Bonded

record Validator =
  OperatorAddress :: ValAddress
  ConsensusPubkey :: PubKey
  Jailed :: bool
  Status :: BondStatus
  Tokens :: sdkInt
  DelegatorShares :: sdkDec
  Description :: Description
  UnbondingHeight :: int64
  UnbondingTime :: Time
  Commission :: Commission
  MinSelfDelegation :: sdkInt

definition GetOperator :: "Validator \<Rightarrow> ValAddress" where
  "GetOperator v = OperatorAddress v"

text \<open>\<^verbatim>\<open>sdk.GetConsAddress(pk)\<close>: the consensus address is the key's address.\<close>
definition GetConsAddress :: "PubKey \<Rightarrow> ConsAddress" where
  "GetConsAddress pk = pk_Address pk"

definition GetConsAddr :: "Validator \<Rightarrow> ConsAddress" where
  "GetConsAddr v = GetConsAddress (ConsensusPubkey v)"

definition NewCommissionWithTime :: "sdkDec \<Rightarrow> sdkDec \<Rightarrow> sdkDec \<Rightarrow> Time \<Rightarrow> Commission" where
  "NewCommissionWithTime rate maxRate maxChangeRate updatedAt =
     \<lparr>Rates = \<lparr>Rate = rate, MaxRate = maxRate, MaxChangeRate = maxChangeRate\<rparr>,
      UpdateTime = updatedAt\<rparr>"

subsection \<open>Events\<close>

text \<open>
  The event types, attribute keys and the module's category are named constants of
  other packages; they are kept symbolic. \<open>AttrAmount i\<close> is the text \<^verbatim>\<open>i.String()\<close>.
\<close>
datatype EventType = EventTypeCreateValidator | EventTypeMessage
datatype AttributeKey =
  AttributeKeyValidator | AttributeKeyAmount | AttributeKeyModule | AttributeKeySender
datatype AttributeValue = AttributeValueCategory | AttrString string | AttrAmount sdkInt

type_synonym Event = "EventType \<times> (AttributeKey \<times> AttributeValue) list"

datatype ModuleAccount = EpochTempPoolName | BondedPoolName | NotBondedPoolName

subsection \<open>The ledger context\<close>

text \<open>
  Modelled from the spec: the store behind the keeper's accessors, which are not part of
  this file. The validator registry keeps a record under the operator-address index and
  under the consensus-address index and has a power-ranking index; the epoch action
  queue is an append-only log keyed by epoch number, in insertion order; the epoch clock
  knows the active epoch number. \<open>external\<close> is the state of the other modules (bank
  balances, whatever the hook observers keep): the bank keeper and the hooks act on it
  and on nothing else.
\<close>
record 'x MultiStore =
  validators :: "ValAddress \<rightharpoonup> Validator"
  validatorsByConsAddr :: "ConsAddress \<rightharpoonup> Validator"
  validatorsByPowerIndex :: "(sdkInt \<times> ValAddress) set"
  epochActions :: "(int64 \<times> EpochAction) list"
  epochNumber :: int64
  bondDenom :: string
  external :: 'x

record ValidatorParams =
  PubKeyTypes :: "string list"

record ConsensusParams =
  cp_Validator :: "ValidatorParams option"

record 'x Context =
  MultiStore :: "'x MultiStore"
  BlockHeight :: int64
  BlockTime :: Time
  ConsensusParams :: "ConsensusParams option"
  EventManager :: "Event list"

definition WithBlockHeight :: "'x Context \<Rightarrow> int64 \<Rightarrow> 'x Context" where
  "WithBlockHeight ctx h = ctx\<lparr>BlockHeight := h\<rparr>"

definition WithBlockTime :: "'x Context \<Rightarrow> Time \<Rightarrow> 'x Context" where
  "WithBlockTime ctx t = ctx\<lparr>BlockTime := t\<rparr>"

definition EmitEvents :: "'x Context \<Rightarrow> Event list \<Rightarrow> 'x Context" where
  "EmitEvents ctx evs = ctx\<lparr>EventManager := EventManager ctx @ evs\<rparr>"

text \<open>
  Modelled from the spec: \<^verbatim>\<open>CacheContext(ctx) -> (isolatedCtx, commitFn)\<close>. The isolated
  context starts from the same store contents with an event manager of its own; the
  commit function, given the isolated context as the simulation left it, writes its
  store over the caller's.
\<close>
definition CacheContext ::
  "'x Context \<Rightarrow> 'x Context \<times> ('x Context \<Rightarrow> 'x Context \<Rightarrow> 'x Context)" where
  "CacheContext ctx =
     (ctx\<lparr>EventManager := []\<rparr>,
      \<lambda>cache parent. parent\<lparr>MultiStore := MultiStore cache\<rparr>)"

subsection \<open>Keeper accessors\<close>

text \<open>Modelled from the spec: \<^verbatim>\<open>GetValidator(ctx, operatorAddr) -> (Validator, found)\<close>.\<close>
definition GetValidator :: "'x Context \<Rightarrow> ValAddress \<Rightarrow> Validator option" where
  "GetValidator ctx addr = validators (MultiStore ctx) addr"

text \<open>Modelled from the spec: \<^verbatim>\<open>GetValidatorByConsAddr(ctx, consAddr) -> (Validator, found)\<close>.\<close>
definition GetValidatorByConsAddr :: "'x Context \<Rightarrow> ConsAddress \<Rightarrow> Validator option" where
  "GetValidatorByConsAddr ctx consAddr = validatorsByConsAddr (MultiStore ctx) consAddr"

text \<open>Modelled from the spec: persist the validator under the operator-address index.\<close>
definition SetValidator :: "'x Context \<Rightarrow> Validator \<Rightarrow> 'x Context" where
  "SetValidator ctx v =
     ctx\<lparr>MultiStore := (MultiStore ctx)
       \<lparr>validators := (validators (MultiStore ctx))(GetOperator v \<mapsto> v)\<rparr>\<rparr>"

text \<open>Modelled from the spec: persist the validator under the consensus-address index.\<close>
definition SetValidatorByConsAddr :: "'x Context \<Rightarrow> Validator \<Rightarrow> 'x Context" where
  "SetValidatorByConsAddr ctx v =
     ctx\<lparr>MultiStore := (MultiStore ctx)
       \<lparr>validatorsByConsAddr := (validatorsByConsAddr (MultiStore ctx))(GetConsAddr v \<mapsto> v)\<rparr>\<rparr>"

text \<open>Modelled from the spec: insert the validator into the power-ranking index, ranked
  by its tokens.\<close>
definition SetNewValidatorByPowerIndex :: "'x Context \<Rightarrow> Validator \<Rightarrow> 'x Context" where
  "SetNewValidatorByPowerIndex ctx v =
     ctx\<lparr>MultiStore := (MultiStore ctx)
       \<lparr>validatorsByPowerIndex :=
          insert (Tokens v, GetOperator v) (validatorsByPowerIndex (MultiStore ctx))\<rparr>\<rparr>"

text \<open>Modelled from the spec: \<^verbatim>\<open>BondDenom(ctx) -> string\<close>.\<close>
definition BondDenom :: "'x Context \<Rightarrow> string" where
  "BondDenom ctx = bondDenom (MultiStore ctx)"

text \<open>Modelled from the spec: \<^verbatim>\<open>GetEpochNumber(ctx)\<close>, the epoch number active now.\<close>
definition GetEpochNumber :: "'x Context \<Rightarrow> int64" where
  "GetEpochNumber ctx = epochNumber (MultiStore ctx)"

text \<open>Modelled from the spec: \<^verbatim>\<open>SaveEpochAction(ctx, epochNumber, action)\<close>, the queue's
  append: it records the action under the epoch number, after the actions already there.\<close>
definition SaveEpochAction :: "'x Context \<Rightarrow> int64 \<Rightarrow> EpochAction \<Rightarrow> 'x Context" where
  "SaveEpochAction ctx n action =
     ctx\<lparr>MultiStore := (MultiStore ctx)
       \<lparr>epochActions := epochActions (MultiStore ctx) @ [(n, action)]\<rparr>\<rparr>"

subsection \<open>Collaborators\<close>

text \<open>
  What the handlers call and this file does not define. \<open>EnsureLength\<close> and
  \<open>commission_Validate\<close> give the error of the length check and of the commission
  check (\<open>None\<close>: accepted); \<open>NewAnyWithValue\<close> the error of packing the public key
  into the validator record; \<open>NewCoins\<close> is \<^verbatim>\<open>sdk.NewCoins\<close>. The bank keeper and the
  hooks transform the state of the other modules. The epoch clock reads a context. The
  two epoch-time algorithms take a context and return it as they leave it, with their
  two results.
\<close>
record 'x Keeper =
  ValAddressFromBech32 :: "string \<Rightarrow> error + ValAddress"
  AccAddressFromBech32 :: "string \<Rightarrow> error + AccAddress"
  EnsureLength :: "Description \<Rightarrow> error option"
  NewAnyWithValue :: "PubKey \<Rightarrow> error option"
  commission_Validate :: "Commission \<Rightarrow> error option"
  NewCoins :: "Coin list \<Rightarrow> Coin list"
  bankKeeper_DelegateCoinsFromAccountToModule ::
    "'x \<Rightarrow> AccAddress \<Rightarrow> ModuleAccount \<Rightarrow> Coin list \<Rightarrow> 'x \<times> error option"
  hooks_AfterValidatorCreated :: "'x \<Rightarrow> ValAddress \<Rightarrow> 'x"
  GetNextEpochHeight :: "'x Context \<Rightarrow> int64"
  GetNextEpochTime :: "'x Context \<Rightarrow> Time"
  EpochBeginRedelegate ::
    "'x Context \<Rightarrow> MsgBeginRedelegate \<Rightarrow> 'x Context \<times> Time \<times> error option"
  EpochUndelegate ::
    "'x Context \<Rightarrow> MsgUndelegate \<Rightarrow> 'x Context \<times> Time \<times> error option"

definition NewCoin :: "string \<Rightarrow> sdkInt \<Rightarrow> Coin" where
  "NewCoin denom amount = \<lparr>Denom = denom, Amount = amount\<rparr>"

text \<open>
  Modelled from the spec: \<^verbatim>\<open>types.NewValidator\<close> constructs the validator record with
  the given operator, key and description; the record is fresh (unbonded, without tokens
  or shares, zero commission). It fails when the key cannot be packed.
\<close>
definition NewValidator ::
  "'x Keeper \<Rightarrow> ValAddress \<Rightarrow> PubKey \<Rightarrow> Description \<Rightarrow> error + Validator" where
  "NewValidator k operator pubKey description =
     (case NewAnyWithValue k pubKey of
        Some err \<Rightarrow> Inl err
      | None \<Rightarrow> Inr
          \<lparr>OperatorAddress = operator, ConsensusPubkey = pubKey, Jailed = False,
           Status = Unbonded, Tokens = 0, DelegatorShares = 0, Description = description,
           UnbondingHeight = 0, UnbondingTime = 0,
           Commission = NewCommissionWithTime 0 0 0 0, MinSelfDelegation = 1\<rparr>)"

text \<open>
  Modelled from the spec: \<^verbatim>\<open>SetInitialCommission\<close> attaches the initial commission to
  the record, unless the commission check refuses it.
\<close>
definition SetInitialCommission ::
  "'x Keeper \<Rightarrow> Validator \<Rightarrow> Commission \<Rightarrow> error + Validator" where
  "SetInitialCommission k v commission =
     (case commission_Validate k commission of
        Some err \<Rightarrow> Inl err
      | None \<Rightarrow> Inr (v\<lparr>Commission := commission\<rparr>))"

text \<open>\<^verbatim>\<open>k.AfterValidatorCreated(ctx, valAddr)\<close>: the hooks run on the other modules' state.\<close>
definition AfterValidatorCreated :: "'x Keeper \<Rightarrow> 'x Context \<Rightarrow> ValAddress \<Rightarrow> 'x Context" where
  "AfterValidatorCreated k ctx valAddr =
     ctx\<lparr>MultiStore := (MultiStore ctx)
       \<lparr>external := hooks_AfterValidatorCreated k (external (MultiStore ctx)) valAddr\<rparr>\<rparr>"

text \<open>\<^verbatim>\<open>k.bankKeeper.DelegateCoinsFromAccountToModule(ctx, from, pool, coins)\<close>.\<close>
definition DelegateCoinsFromAccountToModule ::
  "'x Keeper \<Rightarrow> 'x Context \<Rightarrow> AccAddress \<Rightarrow> ModuleAccount \<Rightarrow> Coin list
     \<Rightarrow> 'x Context \<times> error option" where
  "DelegateCoinsFromAccountToModule k ctx sender pool coins =
     (case bankKeeper_DelegateCoinsFromAccountToModule k (external (MultiStore ctx))
             sender pool coins of
        (x, err) \<Rightarrow> (ctx\<lparr>MultiStore := (MultiStore ctx)\<lparr>external := x\<rparr>\<rparr>, err))"

subsection \<open>The handlers\<close>

definition CreateValidator ::
  "'x Keeper \<Rightarrow> 'x Context \<Rightarrow> MsgCreateValidator
     \<Rightarrow> 'x Context \<times> MsgCreateValidatorResponse option \<times> error option" where
  "CreateValidator k ctx msg =
    (case ValAddressFromBech32 k (cv_ValidatorAddress msg) of
      Inl err \<Rightarrow> (ctx, None, Some err)
    | Inr valAddr \<Rightarrow>
    if GetValidator ctx valAddr \<noteq> None
    then (ctx, None, Some ErrValidatorOwnerExists) else
    (case cv_Pubkey msg of
      None \<Rightarrow>
        (ctx, None, Some (Wrapf ErrInvalidType ''Expecting cryptotypes.PubKey, got <nil>''))
    | Some pk \<Rightarrow>
    if GetValidatorByConsAddr ctx (GetConsAddress pk) \<noteq> None
    then (ctx, None, Some ErrValidatorPubKeyExists) else
    let bondDenom = BondDenom ctx in
    if Denom (cv_Value msg) \<noteq> bondDenom
    then (ctx, None, Some (Wrapf ErrBadDenom
            (''got '' @ Denom (cv_Value msg) @ '', expected '' @ bondDenom))) else
    (case EnsureLength k (cv_Description msg) of
      Some err \<Rightarrow> (ctx, None, Some err)
    | None \<Rightarrow>
    (case (case ConsensusParams ctx of
             None \<Rightarrow> None
           | Some cp \<Rightarrow>
               (case cp_Validator cp of
                  None \<Rightarrow> None
                | Some vp \<Rightarrow>
                    if \<not> StringInSlice (pk_Type pk) (PubKeyTypes vp)
                    then Some (Wrapf ErrValidatorPubKeyTypeNotSupported
                           (''got: '' @ pk_Type pk @ '', expected: ''
                              @ fmt_strings (PubKeyTypes vp)))
                    else None)) of
      Some err \<Rightarrow> (ctx, None, Some err)
    | None \<Rightarrow>
    (case NewValidator k valAddr pk (cv_Description msg) of
      Inl err \<Rightarrow> (ctx, None, Some err)
    | Inr validator \<Rightarrow>
    let commission = NewCommissionWithTime
          (Rate (cv_Commission msg)) (MaxRate (cv_Commission msg))
          (MaxChangeRate (cv_Commission msg)) (BlockTime ctx) in
    (case SetInitialCommission k validator commission of
      Inl err \<Rightarrow> (ctx, None, Some err)
    | Inr validator \<Rightarrow>
    let validator = validator\<lparr>MinSelfDelegation := cv_MinSelfDelegation msg\<rparr>;
        ctx = SetValidator ctx validator;
        ctx = SetValidatorByConsAddr ctx validator;
        ctx = SetNewValidatorByPowerIndex ctx validator;
        ctx = AfterValidatorCreated k ctx (GetOperator validator) in
    (case AccAddressFromBech32 k (cv_DelegatorAddress msg) of
      Inl err \<Rightarrow> (ctx, Some MsgCreateValidatorResponse, Some err)
    | Inr delegatorAddress \<Rightarrow>
    let coins = NewCoins k [NewCoin (BondDenom ctx) (Amount (cv_Value msg))] in
    (case DelegateCoinsFromAccountToModule k ctx delegatorAddress EpochTempPoolName coins of
      (ctx, Some err) \<Rightarrow> (ctx, Some MsgCreateValidatorResponse, Some err)
    | (ctx, None) \<Rightarrow>
    let epochNumber = GetEpochNumber ctx;
        ctx = SaveEpochAction ctx epochNumber (ActCreateValidator msg);
        ctx = EmitEvents ctx
          [(EventTypeCreateValidator,
             [(AttributeKeyValidator, AttrString (cv_ValidatorAddress msg)),
              (AttributeKeyAmount, AttrAmount (Amount (cv_Value msg)))]),
           (EventTypeMessage,
             [(AttributeKeyModule, AttributeValueCategory),
              (AttributeKeySender, AttrString (cv_DelegatorAddress msg))])]
    in (ctx, Some MsgCreateValidatorResponse, None)))))))))"

definition EditValidator ::
  "'x Keeper \<Rightarrow> 'x Context \<Rightarrow> MsgEditValidator
     \<Rightarrow> 'x Context \<times> MsgEditValidatorResponse option \<times> error option" where
  "EditValidator k ctx msg =
    (let epochNumber = GetEpochNumber ctx;
         ctx = SaveEpochAction ctx epochNumber (ActEditValidator msg)
     in (ctx, Some MsgEditValidatorResponse, None))"

definition Delegate ::
  "'x Keeper \<Rightarrow> 'x Context \<Rightarrow> MsgDelegate
     \<Rightarrow> 'x Context \<times> MsgDelegateResponse option \<times> error option" where
  "Delegate k ctx msg =
    (case AccAddressFromBech32 k (d_DelegatorAddress msg) of
      Inl err \<Rightarrow> (ctx, Some MsgDelegateResponse, Some err)
    | Inr delegatorAddress \<Rightarrow>
    let bondDenom = BondDenom ctx in
    if Denom (d_Amount msg) \<noteq> bondDenom
    then (ctx, Some MsgDelegateResponse, Some (Wrapf ErrBadDenom
            (''got '' @ Denom (d_Amount msg) @ '', expected '' @ bondDenom))) else
    let coins = NewCoins k [NewCoin (BondDenom ctx) (Amount (d_Amount msg))] in
    (case DelegateCoinsFromAccountToModule k ctx delegatorAddress EpochTempPoolName coins of
      (ctx, Some err) \<Rightarrow> (ctx, Some MsgDelegateResponse, Some err)
    | (ctx, None) \<Rightarrow>
    let epochNumber = GetEpochNumber ctx;
        ctx = SaveEpochAction ctx epochNumber (ActDelegate msg)
    in (ctx, Some MsgDelegateResponse, None)))"

definition BeginRedelegate ::
  "'x Keeper \<Rightarrow> 'x Context \<Rightarrow> MsgBeginRedelegate
     \<Rightarrow> 'x Context \<times> MsgBeginRedelegateResponse option \<times> error option" where
  "BeginRedelegate k ctx msg =
    (let epochNumber = GetEpochNumber ctx;
         ctx = SaveEpochAction ctx epochNumber (ActBeginRedelegate msg);
         cacheCtx = fst (CacheContext ctx);
         cacheCtx = WithBlockHeight cacheCtx (GetNextEpochHeight k ctx);
         cacheCtx = WithBlockTime cacheCtx (GetNextEpochTime k ctx)
     in (case EpochBeginRedelegate k cacheCtx msg of
           (cacheCtx, completionTime, Some err) \<Rightarrow> (ctx, None, Some err)
         | (cacheCtx, completionTime, None) \<Rightarrow>
             (ctx, Some \<lparr>r_CompletionTime = completionTime\<rparr>, None)))"

definition Undelegate ::
  "'x Keeper \<Rightarrow> 'x Context \<Rightarrow> MsgUndelegate
     \<Rightarrow> 'x Context \<times> MsgUndelegateResponse option \<times> error option" where
  "Undelegate k ctx msg =
    (let ctx = SaveEpochAction ctx 0 (ActUndelegate msg);
         cacheCtx = fst (CacheContext ctx);
         cacheCtx = WithBlockHeight cacheCtx (GetNextEpochHeight k ctx);
         cacheCtx = WithBlockTime cacheCtx (GetNextEpochTime k ctx)
     in (case EpochUndelegate k cacheCtx msg of
           (cacheCtx, completionTime, Some err) \<Rightarrow> (ctx, None, Some err)
         | (cacheCtx, completionTime, None) \<Rightarrow>
             (ctx, Some \<lparr>u_CompletionTime = completionTime\<rparr>, None)))"

section \<open>A small ledger to run the handlers on\<close>

text \<open>
  A concrete keeper and concrete requests, on which the handlers are evaluated. The other
  modules' state is a ledger of account balances, the balance of the epoch pool, and the
  operators the creation hook has been called with. The keeper's commission check is the
  bound of the data model, rate \<open>\<le>\<close> maxRate.
\<close>

record Ledger =
  accountBalance :: "AccAddress \<Rightarrow> sdkInt"
  poolBalance :: sdkInt
  hookCalls :: "ValAddress list"

text \<open>An address text decodes when it carries the prefix and something after it.\<close>
definition demoBech32 :: "string \<Rightarrow> string \<Rightarrow> error + string" where
  "demoBech32 prefix s =
     (if take (length prefix) s = prefix \<and> length prefix < length s
      then Inr (drop (length prefix) s)
      else Inl (ErrExternal ''decoding bech32 failed''))"

text \<open>The transfer moves the coins' amounts into the pool when the account holds them.\<close>
definition demoBank ::
  "Ledger \<Rightarrow> AccAddress \<Rightarrow> ModuleAccount \<Rightarrow> Coin list \<Rightarrow> Ledger \<times> error option" where
  "demoBank l sender pool coins =
     (let amt = sum_list (map Amount coins) in
      if accountBalance l sender < amt
      then (l, Some (ErrExternal ''insufficient funds''))
      else (l\<lparr>accountBalance := (accountBalance l)(sender := accountBalance l sender - amt),
              poolBalance := poolBalance l + amt\<rparr>, None))"

text \<open>
  The two simulations refuse a request between a validator and itself (or for nothing);
  otherwise they write into the store they are given and answer with a completion time
  counted from the block time of their context.
\<close>
definition demoRedelegate ::
  "Ledger Context \<Rightarrow> MsgBeginRedelegate \<Rightarrow> Ledger Context \<times> Time \<times> error option" where
  "demoRedelegate ctx msg =
     (if r_ValidatorSrcAddress msg = r_ValidatorDstAddress msg
      then (ctx, 0, Some (ErrExternal ''cannot redelegate to the same validator''))
      else (ctx\<lparr>MultiStore := (MultiStore ctx)\<lparr>epochActions := []\<rparr>\<rparr>,
            BlockTime ctx + 1814400, None))"

definition demoUndelegate ::
  "Ledger Context \<Rightarrow> MsgUndelegate \<Rightarrow> Ledger Context \<times> Time \<times> error option" where
  "demoUndelegate ctx msg =
     (if Amount (u_Amount msg) \<le> 0
      then (ctx, 0, Some (ErrExternal ''invalid shares amount''))
      else (ctx\<lparr>MultiStore := (MultiStore ctx)\<lparr>epochActions := []\<rparr>\<rparr>,
            BlockTime ctx + 1814400, None))"

definition demoKeeper :: "Ledger Keeper" where
  "demoKeeper =
     \<lparr>ValAddressFromBech32 = demoBech32 ''val'',
      AccAddressFromBech32 = demoBech32 ''acc'',
      EnsureLength = (\<lambda>d. if 70 < length (Moniker d)
                           then Some (ErrExternal ''invalid moniker length'') else None),
      NewAnyWithValue = (\<lambda>pk. if pk_Bytes pk = []
                              then Some (ErrExternal ''cannot pack an empty key'') else None),
      commission_Validate = (\<lambda>c. if MaxRate (Rates c) < Rate (Rates c)
                                  then Some (ErrExternal ''commission cannot be more than the max rate'')
                                  else None),
      NewCoins = filter (\<lambda>c. Amount c \<noteq> 0),
      bankKeeper_DelegateCoinsFromAccountToModule = demoBank,
      hooks_AfterValidatorCreated = (\<lambda>l a. l\<lparr>hookCalls := hookCalls l @ [a]\<rparr>),
      GetNextEpochHeight = (\<lambda>ctx. BlockHeight ctx + 1000),
      GetNextEpochTime = (\<lambda>ctx. BlockTime ctx + 5000),
      EpochBeginRedelegate = demoRedelegate,
      EpochUndelegate = demoUndelegate\<rparr>"

definition demoLedger :: Ledger where
  "demoLedger =
     \<lparr>accountBalance = (\<lambda>a. if a = ''alice'' then 1000 else 0),
      poolBalance = 0, hookCalls = []\<rparr>"

text \<open>Epoch 5, bonding denomination \<open>stake\<close>, no validator registered, an empty queue.\<close>
definition demoCtx :: "Ledger Context" where
  "demoCtx =
     \<lparr>MultiStore =
        \<lparr>validators = Map.empty, validatorsByConsAddr = Map.empty,
         validatorsByPowerIndex = {}, epochActions = [], epochNumber = 5,
         bondDenom = ''stake'', external = demoLedger\<rparr>,
      BlockHeight = 100, BlockTime = 1000000,
      ConsensusParams = Some \<lparr>cp_Validator = Some \<lparr>PubKeyTypes = [''ed25519'']\<rparr>\<rparr>,
      EventManager = []\<rparr>"

text \<open>The same context while the epoch number is still 0.\<close>
definition demoCtxEpochZero :: "Ledger Context" where
  "demoCtxEpochZero = demoCtx\<lparr>MultiStore := (MultiStore demoCtx)\<lparr>epochNumber := 0\<rparr>\<rparr>"

definition demoKey :: PubKey where
  "demoKey = \<lparr>pk_Address = ''cons1'', pk_Bytes = ''key1'', pk_Type = ''ed25519''\<rparr>"

definition demoDescription :: Description where
  "demoDescription =
     \<lparr>Moniker = ''node'', Identity = [], Website = [], SecurityContact = [], Details = []\<rparr>"

text \<open>Alice creates a validator with 100 stake of her 1000.\<close>
definition demoCreate :: MsgCreateValidator where
  "demoCreate =
     \<lparr>cv_Description = demoDescription,
      cv_Commission = \<lparr>Rate = 10, MaxRate = 20, MaxChangeRate = 1\<rparr>,
      cv_MinSelfDelegation = 1,
      cv_DelegatorAddress = ''accalice'',
      cv_ValidatorAddress = ''valalice'',
      cv_Pubkey = Some demoKey,
      cv_Value = \<lparr>Denom = ''stake'', Amount = 100\<rparr>\<rparr>"

text \<open>The record \<^verbatim>\<open>NewValidator\<close> builds for her, and the record the handler persists.\<close>
definition demoFresh :: Validator where
  "demoFresh =
     \<lparr>OperatorAddress = ''alice'', ConsensusPubkey = demoKey, Jailed = False,
      Status = Unbonded, Tokens = 0, DelegatorShares = 0, Description = demoDescription,
      UnbondingHeight = 0, UnbondingTime = 0,
      Commission = NewCommissionWithTime 0 0 0 0, MinSelfDelegation = 1\<rparr>"

definition demoValidator :: Validator where
  "demoValidator = demoFresh\<lparr>Commission := NewCommissionWithTime 10 20 1 1000000\<rparr>"

text \<open>The same request with a delegator address that does not decode.\<close>
definition demoCreateBadDelegator :: MsgCreateValidator where
  "demoCreateBadDelegator = demoCreate\<lparr>cv_DelegatorAddress := ''alice''\<rparr>"

text \<open>The same request for more stake than Alice holds.\<close>
definition demoCreatePoor :: MsgCreateValidator where
  "demoCreatePoor = demoCreate\<lparr>cv_Value := \<lparr>Denom = ''stake'', Amount = 5000\<rparr>\<rparr>"

text \<open>The same key under another operator.\<close>
definition demoCreateBob :: MsgCreateValidator where
  "demoCreateBob = demoCreate\<lparr>cv_ValidatorAddress := ''valbob''\<rparr>"

text \<open>The context with Alice's validator registered under both indices.\<close>
definition demoRegistered :: "Ledger Context" where
  "demoRegistered =
     demoCtx\<lparr>MultiStore := (MultiStore demoCtx)
       \<lparr>validators := [''alice'' \<mapsto> demoValidator],
        validatorsByConsAddr := [''cons1'' \<mapsto> demoValidator]\<rparr>\<rparr>"

text \<open>Delegations of 50 atom, where the bonding denomination is stake.\<close>
definition demoDelegateAtom :: MsgDelegate where
  "demoDelegateAtom =
     \<lparr>d_DelegatorAddress = ''accalice'', d_ValidatorAddress = ''valalice'',
      d_Amount = \<lparr>Denom = ''atom'', Amount = 50\<rparr>\<rparr>"

text \<open>A delegation of 50 stake, and one of 5000 stake, which Alice does not hold.\<close>
definition demoDelegateStake :: MsgDelegate where
  "demoDelegateStake = demoDelegateAtom\<lparr>d_Amount := \<lparr>Denom = ''stake'', Amount = 50\<rparr>\<rparr>"

definition demoDelegatePoor :: MsgDelegate where
  "demoDelegatePoor = demoDelegateAtom\<lparr>d_Amount := \<lparr>Denom = ''stake'', Amount = 5000\<rparr>\<rparr>"

definition demoDelegateAtomBadAddress :: MsgDelegate where
  "demoDelegateAtomBadAddress = demoDelegateAtom\<lparr>d_DelegatorAddress := ''alice''\<rparr>"

definition demoRedelegation :: MsgBeginRedelegate where
  "demoRedelegation =
     \<lparr>r_DelegatorAddress = ''accalice'', r_ValidatorSrcAddress = ''valA'',
      r_ValidatorDstAddress = ''valB'', r_Amount = \<lparr>Denom = ''stake'', Amount = 50\<rparr>\<rparr>"

text \<open>A redelegation from a validator to itself, which the simulation refuses.\<close>
definition demoSelfRedelegation :: MsgBeginRedelegate where
  "demoSelfRedelegation = demoRedelegation\<lparr>r_ValidatorDstAddress := ''valA''\<rparr>"

definition demoUndelegation :: MsgUndelegate where
  "demoUndelegation =
     \<lparr>u_DelegatorAddress = ''accalice'', u_ValidatorAddress = ''valA'',
      u_Amount = \<lparr>Denom = ''stake'', Amount = 50\<rparr>\<rparr>"

section \<open>The queue and the projected context\<close>

text \<open>
  Modelled from the spec: the projected context, "an isolated copy of the ledger context
  with height and time advanced to the next epoch's height and time (queried from the
  Epoch Clock)".
\<close>
definition ProjectedContext :: "'x Keeper \<Rightarrow> 'x Context \<Rightarrow> 'x Context" where
  "ProjectedContext k ctx =
     (fst (CacheContext ctx))
       \<lparr>BlockHeight := GetNextEpochHeight k ctx, BlockTime := GetNextEpochTime k ctx\<rparr>"

section \<open>Redelegation and undelegation\<close>

lemma BeginRedelegate_context:
  "fst (BeginRedelegate k ctx msg) =
     SaveEpochAction ctx (GetEpochNumber ctx) (ActBeginRedelegate msg)"
  by (simp add: BeginRedelegate_def Let_def split: prod.splits option.splits)

lemma Undelegate_context:
  "fst (Undelegate k ctx msg) = SaveEpochAction ctx 0 (ActUndelegate msg)"
  by (simp add: Undelegate_def Let_def split: prod.splits option.splits)

lemma SaveEpochAction_queue:
  "epochActions (MultiStore (SaveEpochAction ctx n a)) = epochActions (MultiStore ctx) @ [(n, a)]"
  by (simp add: SaveEpochAction_def)

lemma BeginRedelegate_result:
  "snd (BeginRedelegate k ctx msg) =
     (case snd (EpochBeginRedelegate k (ProjectedContext k (fst (BeginRedelegate k ctx msg))) msg) of
        (completionTime, Some err) \<Rightarrow> (None, Some err)
      | (completionTime, None) \<Rightarrow> (Some \<lparr>r_CompletionTime = completionTime\<rparr>, None))"
  unfolding BeginRedelegate_context
  by (simp add: BeginRedelegate_def ProjectedContext_def WithBlockHeight_def WithBlockTime_def
      Let_def split: prod.splits option.splits)

text \<open>
  C2. BeginRedelegate appends exactly one begin-redelegate action under the current epoch
  number: whatever the keeper's simulation answers, a completion time or an error, the
  queue the call leaves is the queue it found followed by that one action.
\<close>
theorem BeginRedelegate_appends_one_action:
  "epochActions (MultiStore (fst (BeginRedelegate k ctx msg))) =
     epochActions (MultiStore ctx) @ [(GetEpochNumber ctx, ActBeginRedelegate msg)]"
  by (simp only: BeginRedelegate_context SaveEpochAction_queue)

theorem BeginRedelegate_appends_one_action_witness:
  "snd (BeginRedelegate demoKeeper demoCtx demoRedelegation) =
     (Some \<lparr>r_CompletionTime = 2819400\<rparr>, None)
   \<and> epochActions (MultiStore (fst (BeginRedelegate demoKeeper demoCtx demoRedelegation))) =
       [(5, ActBeginRedelegate demoRedelegation)]
   \<and> snd (BeginRedelegate demoKeeper demoCtx demoSelfRedelegation) =
       (None, Some (ErrExternal ''cannot redelegate to the same validator''))
   \<and> epochActions (MultiStore (fst (BeginRedelegate demoKeeper demoCtx demoSelfRedelegation))) =
       [(5, ActBeginRedelegate demoSelfRedelegation)]"
proof -
  have "snd (BeginRedelegate demoKeeper demoCtx demoRedelegation) =
      (Some \<lparr>r_CompletionTime = 2819400\<rparr>, None)"
    and "snd (BeginRedelegate demoKeeper demoCtx demoSelfRedelegation) =
      (None, Some (ErrExternal ''cannot redelegate to the same validator''))"
    by (simp_all add: BeginRedelegate_def Let_def GetEpochNumber_def CacheContext_def
        WithBlockHeight_def WithBlockTime_def SaveEpochAction_def demoKeeper_def
        demoRedelegate_def demoRedelegation_def demoSelfRedelegation_def demoCtx_def)
  moreover have "GetEpochNumber demoCtx = 5" and "epochActions (MultiStore demoCtx) = []"
    by (simp_all add: GetEpochNumber_def demoCtx_def)
  ultimately show ?thesis
    using BeginRedelegate_appends_one_action [of demoKeeper demoCtx demoRedelegation]
      BeginRedelegate_appends_one_action [of demoKeeper demoCtx demoSelfRedelegation]
    by simp
qed

text \<open>
  C3, as amended. Undelegate enqueues under epoch number 0 for every current epoch
  number: the queue the call leaves is the queue it found followed by the action under 0,
  and when the current epoch number is not 0 (5, say) that is not the queue with the
  action under the current epoch number.
\<close>
theorem Undelegate_enqueues_under_zero:
  "epochActions (MultiStore (fst (Undelegate k ctx msg))) =
     epochActions (MultiStore ctx) @ [(0, ActUndelegate msg)]
   \<and> (GetEpochNumber ctx \<noteq> 0 \<longrightarrow>
        epochActions (MultiStore (fst (Undelegate k ctx msg))) \<noteq>
          epochActions (MultiStore ctx) @ [(GetEpochNumber ctx, ActUndelegate msg)])"
  by (simp add: Undelegate_context SaveEpochAction_queue)

theorem Undelegate_enqueues_under_zero_witness:
  "GetEpochNumber demoCtx = 5 \<and> GetEpochNumber demoCtx \<noteq> 0
   \<and> epochActions (MultiStore (fst (Undelegate demoKeeper demoCtx demoUndelegation))) =
       [(0, ActUndelegate demoUndelegation)]
   \<and> epochActions (MultiStore (fst (Undelegate demoKeeper demoCtx demoUndelegation))) \<noteq>
       [(5, ActUndelegate demoUndelegation)]"
  using Undelegate_enqueues_under_zero [of demoKeeper demoCtx demoUndelegation]
  by (simp add: GetEpochNumber_def demoCtx_def)

text \<open>
  C3 as stated fails. When the current epoch number is 0, the action Undelegate saves
  under the literal 0 is under the caller's current epoch number: the queue the call
  leaves is the queue it found followed by the action under the current epoch number.
\<close>
theorem Undelegate_epoch_zero_counterexample:
  "GetEpochNumber demoCtxEpochZero = 0
   \<and> epochActions (MultiStore (fst (Undelegate demoKeeper demoCtxEpochZero demoUndelegation))) =
       epochActions (MultiStore demoCtxEpochZero)
         @ [(GetEpochNumber demoCtxEpochZero, ActUndelegate demoUndelegation)]
   \<and> epochActions (MultiStore (fst (Undelegate demoKeeper demoCtxEpochZero demoUndelegation))) =
       [(GetEpochNumber demoCtxEpochZero, ActUndelegate demoUndelegation)]"
  by (simp add: Undelegate_context SaveEpochAction_queue GetEpochNumber_def
      demoCtxEpochZero_def demoCtx_def)

text \<open>
  C4. When BeginRedelegate returns successfully, the completion time in its response is
  the one EpochBeginRedelegate returns, without error, when run on the same message
  against the projected context: the context the call leaves (the action queued), seen
  through CacheContext, with the next epoch's height as block height and the next
  epoch's time as block time, both as the epoch clock reports them there.
\<close>
theorem BeginRedelegate_completion_time:
  assumes "BeginRedelegate k ctx msg = (ctx', Some resp, None)"
  shows "BlockHeight (ProjectedContext k ctx') = GetNextEpochHeight k ctx'
       \<and> BlockTime (ProjectedContext k ctx') = GetNextEpochTime k ctx'
       \<and> MultiStore (ProjectedContext k ctx') = MultiStore ctx'
       \<and> snd (EpochBeginRedelegate k (ProjectedContext k ctx') msg) =
           (r_CompletionTime resp, None)"
proof -
  have ctx': "fst (BeginRedelegate k ctx msg) = ctx'"
    and res: "snd (BeginRedelegate k ctx msg) = (Some resp, None)"
    using assms by simp_all
  have "snd (EpochBeginRedelegate k (ProjectedContext k ctx') msg) = (r_CompletionTime resp, None)"
    using res BeginRedelegate_result [of k ctx msg] unfolding ctx'
    by (auto split: prod.splits option.splits)
  then show ?thesis
    by (simp add: ProjectedContext_def CacheContext_def)
qed

theorem BeginRedelegate_completion_time_witness:
  "BeginRedelegate demoKeeper demoCtx demoRedelegation =
     (SaveEpochAction demoCtx 5 (ActBeginRedelegate demoRedelegation),
      Some \<lparr>r_CompletionTime = 2819400\<rparr>, None)
   \<and> BlockHeight (ProjectedContext demoKeeper
        (SaveEpochAction demoCtx 5 (ActBeginRedelegate demoRedelegation))) = 1100
   \<and> BlockTime (ProjectedContext demoKeeper
        (SaveEpochAction demoCtx 5 (ActBeginRedelegate demoRedelegation))) = 1005000
   \<and> snd (EpochBeginRedelegate demoKeeper (ProjectedContext demoKeeper
        (SaveEpochAction demoCtx 5 (ActBeginRedelegate demoRedelegation))) demoRedelegation) =
       (2819400, None)"
proof -
  have run: "BeginRedelegate demoKeeper demoCtx demoRedelegation =
     (SaveEpochAction demoCtx 5 (ActBeginRedelegate demoRedelegation),
      Some \<lparr>r_CompletionTime = 2819400\<rparr>, None)"
    by (simp add: BeginRedelegate_def Let_def GetEpochNumber_def CacheContext_def
        WithBlockHeight_def WithBlockTime_def SaveEpochAction_def demoKeeper_def
        demoRedelegate_def demoRedelegation_def demoCtx_def)
  show ?thesis
    using BeginRedelegate_completion_time [OF run] run
    by (simp add: demoKeeper_def SaveEpochAction_def demoCtx_def)
qed

lemma Undelegate_result:
  "snd (Undelegate k ctx msg) =
     (case snd (EpochUndelegate k (ProjectedContext k (fst (Undelegate k ctx msg))) msg) of
        (completionTime, Some err) \<Rightarrow> (None, Some err)
      | (completionTime, None) \<Rightarrow> (Some \<lparr>u_CompletionTime = completionTime\<rparr>, None))"
  unfolding Undelegate_context
  by (simp add: Undelegate_def ProjectedContext_def WithBlockHeight_def WithBlockTime_def
      Let_def split: prod.splits option.splits)

text \<open>
  The same for Undelegate: the completion time of a successful call is the one
  EpochUndelegate returns on the projected context of the context the call leaves.
\<close>
theorem Undelegate_completion_time:
  assumes "Undelegate k ctx msg = (ctx', Some resp, None)"
  shows "BlockHeight (ProjectedContext k ctx') = GetNextEpochHeight k ctx'
       \<and> BlockTime (ProjectedContext k ctx') = GetNextEpochTime k ctx'
       \<and> snd (EpochUndelegate k (ProjectedContext k ctx') msg) = (u_CompletionTime resp, None)"
proof -
  have ctx': "fst (Undelegate k ctx msg) = ctx'"
    and res: "snd (Undelegate k ctx msg) = (Some resp, None)"
    using assms by simp_all
  have "snd (EpochUndelegate k (ProjectedContext k ctx') msg) = (u_CompletionTime resp, None)"
    using res Undelegate_result [of k ctx msg] unfolding ctx'
    by (auto split: prod.splits option.splits)
  then show ?thesis
    by (simp add: ProjectedContext_def CacheContext_def)
qed

theorem Undelegate_completion_time_witness:
  "Undelegate demoKeeper demoCtx demoUndelegation =
     (SaveEpochAction demoCtx 0 (ActUndelegate demoUndelegation),
      Some \<lparr>u_CompletionTime = 2819400\<rparr>, None)
   \<and> BlockTime (ProjectedContext demoKeeper
        (SaveEpochAction demoCtx 0 (ActUndelegate demoUndelegation))) = 1005000
   \<and> snd (EpochUndelegate demoKeeper (ProjectedContext demoKeeper
        (SaveEpochAction demoCtx 0 (ActUndelegate demoUndelegation))) demoUndelegation) =
       (2819400, None)"
proof -
  have run: "Undelegate demoKeeper demoCtx demoUndelegation =
     (SaveEpochAction demoCtx 0 (ActUndelegate demoUndelegation),
      Some \<lparr>u_CompletionTime = 2819400\<rparr>, None)"
    by (simp add: Undelegate_def Let_def CacheContext_def
        WithBlockHeight_def WithBlockTime_def SaveEpochAction_def demoKeeper_def
        demoUndelegate_def demoUndelegation_def demoCtx_def)
  show ?thesis
    using Undelegate_completion_time [OF run] run
    by (simp add: demoKeeper_def SaveEpochAction_def demoCtx_def)
qed

text \<open>
  C10. BeginRedelegate and Undelegate never apply the commit function of the projected
  context: the canonical context either call leaves is the context it found with the one
  action saved in it and nothing else changed, whatever the simulation wrote into the
  projection, and the saved action is in the queue of that context.
\<close>
theorem projection_is_discarded:
  "fst (BeginRedelegate k ctx msg) =
     SaveEpochAction ctx (GetEpochNumber ctx) (ActBeginRedelegate msg)
   \<and> (GetEpochNumber ctx, ActBeginRedelegate msg)
       \<in> set (epochActions (MultiStore (fst (BeginRedelegate k ctx msg))))
   \<and> fst (Undelegate k ctx msg') = SaveEpochAction ctx 0 (ActUndelegate msg')
   \<and> (0, ActUndelegate msg')
       \<in> set (epochActions (MultiStore (fst (Undelegate k ctx msg'))))"
  by (simp add: BeginRedelegate_context Undelegate_context SaveEpochAction_queue)

theorem projection_is_discarded_witness:
  "epochActions (MultiStore (fst (EpochBeginRedelegate demoKeeper
      (ProjectedContext demoKeeper (SaveEpochAction demoCtx 5 (ActBeginRedelegate demoRedelegation)))
      demoRedelegation))) = []
   \<and> fst (BeginRedelegate demoKeeper demoCtx demoRedelegation) =
       SaveEpochAction demoCtx 5 (ActBeginRedelegate demoRedelegation)
   \<and> epochActions (MultiStore (fst (BeginRedelegate demoKeeper demoCtx demoRedelegation))) =
       [(5, ActBeginRedelegate demoRedelegation)]
   \<and> epochActions (MultiStore (fst (EpochUndelegate demoKeeper
      (ProjectedContext demoKeeper (SaveEpochAction demoCtx 0 (ActUndelegate demoUndelegation)))
      demoUndelegation))) = []
   \<and> fst (Undelegate demoKeeper demoCtx demoUndelegation) =
       SaveEpochAction demoCtx 0 (ActUndelegate demoUndelegation)
   \<and> epochActions (MultiStore (fst (Undelegate demoKeeper demoCtx demoUndelegation))) =
       [(0, ActUndelegate demoUndelegation)]"
proof -
  have "epochActions (MultiStore (fst (EpochBeginRedelegate demoKeeper
      (ProjectedContext demoKeeper (SaveEpochAction demoCtx 5 (ActBeginRedelegate demoRedelegation)))
      demoRedelegation))) = []"
    and "epochActions (MultiStore (fst (EpochUndelegate demoKeeper
      (ProjectedContext demoKeeper (SaveEpochAction demoCtx 0 (ActUndelegate demoUndelegation)))
      demoUndelegation))) = []"
    by (simp_all add: demoKeeper_def demoRedelegate_def demoRedelegation_def demoUndelegate_def
        demoUndelegation_def)
  moreover have "GetEpochNumber demoCtx = 5" and "epochActions (MultiStore demoCtx) = []"
    by (simp_all add: GetEpochNumber_def demoCtx_def)
  ultimately show ?thesis
    using projection_is_discarded [of demoKeeper demoCtx demoRedelegation demoUndelegation]
    by (simp add: SaveEpochAction_queue)
qed

section \<open>Creating a validator\<close>

lemmas store_defs = GetValidator_def GetValidatorByConsAddr_def SetValidator_def
  SetValidatorByConsAddr_def SetNewValidatorByPowerIndex_def BondDenom_def GetEpochNumber_def
  SaveEpochAction_def AfterValidatorCreated_def DelegateCoinsFromAccountToModule_def
  EmitEvents_def GetOperator_def GetConsAddr_def

lemmas record_defs = NewValidator_def SetInitialCommission_def NewCommissionWithTime_def
  NewCoin_def StringInSlice_def GetConsAddress_def

lemmas demo_defs = demoKeeper_def demoBech32_def demoBank_def demoCtx_def demoLedger_def
  demoKey_def demoDescription_def demoCreate_def demoFresh_def demoValidator_def
  demoRegistered_def demoDelegateAtom_def

lemma NewValidator_Inr:
  "NewValidator k a pk d = Inr v \<Longrightarrow> OperatorAddress v = a \<and> ConsensusPubkey v = pk"
  by (auto simp: NewValidator_def split: option.splits)

lemma SetInitialCommission_Inr:
  "SetInitialCommission k v c = Inr w \<Longrightarrow> w = v\<lparr>Commission := c\<rparr>"
  by (auto simp: SetInitialCommission_def split: option.splits)

text \<open>
  C1. A CreateValidator request passes all validation (the operator address decodes and
  is not registered, the public key is present and its consensus address is not
  registered, the denom is the bonding denomination, the description is within its
  limits, the key type is permitted), its delegator address decodes, and its transfer
  into the epoch pool succeeds: the handler reaches the transfer, having built the
  record with NewValidator and SetInitialCommission, and the bank returns no error. Then
  the handler returns the empty response and no error, the record it built is found
  under the operator address and under the consensus address of the key, and the queue
  is the queue it found followed by the create-validator action under the current epoch
  number.
\<close>
theorem CreateValidator_registers_and_enqueues:
  assumes "ValAddressFromBech32 k (cv_ValidatorAddress msg) = Inr valAddr"
    and "GetValidator ctx valAddr = None"
    and "cv_Pubkey msg = Some pk"
    and "GetValidatorByConsAddr ctx (GetConsAddress pk) = None"
    and "Denom (cv_Value msg) = BondDenom ctx"
    and "EnsureLength k (cv_Description msg) = None"
    and "case ConsensusParams ctx of None \<Rightarrow> True
         | Some cp \<Rightarrow> (case cp_Validator cp of None \<Rightarrow> True
             | Some vp \<Rightarrow> StringInSlice (pk_Type pk) (PubKeyTypes vp))"
    and "NewValidator k valAddr pk (cv_Description msg) = Inr fresh"
    and "SetInitialCommission k fresh
           (NewCommissionWithTime (Rate (cv_Commission msg)) (MaxRate (cv_Commission msg))
              (MaxChangeRate (cv_Commission msg)) (BlockTime ctx)) = Inr withCommission"
    and "AccAddressFromBech32 k (cv_DelegatorAddress msg) = Inr delegatorAddress"
    and "snd (bankKeeper_DelegateCoinsFromAccountToModule k
                (hooks_AfterValidatorCreated k (external (MultiStore ctx)) valAddr)
                delegatorAddress EpochTempPoolName
                (NewCoins k [NewCoin (BondDenom ctx) (Amount (cv_Value msg))])) = None"
  shows "snd (CreateValidator k ctx msg) = (Some MsgCreateValidatorResponse, None)
     \<and> GetValidator (fst (CreateValidator k ctx msg)) valAddr =
         Some (withCommission\<lparr>MinSelfDelegation := cv_MinSelfDelegation msg\<rparr>)
     \<and> GetValidatorByConsAddr (fst (CreateValidator k ctx msg)) (GetConsAddress pk) =
         Some (withCommission\<lparr>MinSelfDelegation := cv_MinSelfDelegation msg\<rparr>)
     \<and> epochActions (MultiStore (fst (CreateValidator k ctx msg))) =
         epochActions (MultiStore ctx) @ [(GetEpochNumber ctx, ActCreateValidator msg)]"
proof -
  note nv = NewValidator_Inr [OF assms(8)]
  note sc = SetInitialCommission_Inr [OF assms(9)]
  show ?thesis
    using assms nv sc
    by (auto simp: CreateValidator_def Let_def store_defs split: option.splits prod.splits)
qed

theorem CreateValidator_registers_and_enqueues_witness:
  "ValAddressFromBech32 demoKeeper (cv_ValidatorAddress demoCreate) = Inr ''alice''
   \<and> GetValidator demoCtx ''alice'' = None
   \<and> cv_Pubkey demoCreate = Some demoKey
   \<and> GetValidatorByConsAddr demoCtx (GetConsAddress demoKey) = None
   \<and> Denom (cv_Value demoCreate) = BondDenom demoCtx
   \<and> EnsureLength demoKeeper (cv_Description demoCreate) = None
   \<and> ConsensusParams demoCtx = Some \<lparr>cp_Validator = Some \<lparr>PubKeyTypes = [''ed25519'']\<rparr>\<rparr>
   \<and> StringInSlice (pk_Type demoKey) [''ed25519'']
   \<and> NewValidator demoKeeper ''alice'' demoKey (cv_Description demoCreate) = Inr demoFresh
   \<and> SetInitialCommission demoKeeper demoFresh (NewCommissionWithTime 10 20 1 1000000) =
       Inr demoValidator
   \<and> AccAddressFromBech32 demoKeeper (cv_DelegatorAddress demoCreate) = Inr ''alice''
   \<and> snd (bankKeeper_DelegateCoinsFromAccountToModule demoKeeper
            (hooks_AfterValidatorCreated demoKeeper (external (MultiStore demoCtx)) ''alice'')
            ''alice'' EpochTempPoolName
            (NewCoins demoKeeper [NewCoin (BondDenom demoCtx) (Amount (cv_Value demoCreate))])) =
       None
   \<and> snd (CreateValidator demoKeeper demoCtx demoCreate) =
       (Some MsgCreateValidatorResponse, None)
   \<and> GetValidator (fst (CreateValidator demoKeeper demoCtx demoCreate)) ''alice'' =
       Some demoValidator
   \<and> GetValidatorByConsAddr (fst (CreateValidator demoKeeper demoCtx demoCreate)) ''cons1'' =
       Some demoValidator
   \<and> epochActions (MultiStore (fst (CreateValidator demoKeeper demoCtx demoCreate))) =
       [(5, ActCreateValidator demoCreate)]"
  using CreateValidator_registers_and_enqueues
    [where k = demoKeeper and ctx = demoCtx and msg = demoCreate and valAddr = "''alice''"
       and pk = demoKey and fresh = demoFresh and withCommission = demoValidator
       and delegatorAddress = "''alice''"]
  by (simp add: store_defs record_defs demo_defs)

text \<open>
  C5 fails on the code. Alice's request with the delegator address \<open>alice\<close>, which does
  not decode, gets the decoding error (with a response), but only after the handler has
  persisted her validator under both indices and in the power index and has called the
  creation hook; no funds have moved and nothing is queued.
\<close>
theorem CreateValidator_bad_delegator_persists:
  "AccAddressFromBech32 demoKeeper (cv_DelegatorAddress demoCreateBadDelegator) =
     Inl (ErrExternal ''decoding bech32 failed'')
   \<and> snd (CreateValidator demoKeeper demoCtx demoCreateBadDelegator) =
       (Some MsgCreateValidatorResponse, Some (ErrExternal ''decoding bech32 failed''))
   \<and> GetValidator demoCtx ''alice'' = None
   \<and> GetValidator (fst (CreateValidator demoKeeper demoCtx demoCreateBadDelegator)) ''alice'' =
       Some demoValidator
   \<and> GetValidatorByConsAddr demoCtx ''cons1'' = None
   \<and> GetValidatorByConsAddr
        (fst (CreateValidator demoKeeper demoCtx demoCreateBadDelegator)) ''cons1'' =
       Some demoValidator
   \<and> validatorsByPowerIndex
        (MultiStore (fst (CreateValidator demoKeeper demoCtx demoCreateBadDelegator))) =
       {(0, ''alice'')}
   \<and> hookCalls (external (MultiStore demoCtx)) = []
   \<and> hookCalls (external
        (MultiStore (fst (CreateValidator demoKeeper demoCtx demoCreateBadDelegator)))) =
       [''alice'']
   \<and> accountBalance (external
        (MultiStore (fst (CreateValidator demoKeeper demoCtx demoCreateBadDelegator)))) ''alice'' =
       1000
   \<and> poolBalance (external
        (MultiStore (fst (CreateValidator demoKeeper demoCtx demoCreateBadDelegator)))) = 0
   \<and> epochActions
        (MultiStore (fst (CreateValidator demoKeeper demoCtx demoCreateBadDelegator))) = []"
  by (simp add: CreateValidator_def Let_def store_defs record_defs demo_defs demoCreateBadDelegator_def)

text \<open>
  C6. A CreateValidator request passes every check of the handler, its delegator address
  decodes, and the transfer into the epoch pool returns an error. Then the handler
  returns that error, the record it persisted before the transfer is still found under
  the operator address and under the consensus address of the key, and the queue is the
  queue it found.
\<close>
theorem CreateValidator_transfer_failure:
  assumes "ValAddressFromBech32 k (cv_ValidatorAddress msg) = Inr valAddr"
    and "GetValidator ctx valAddr = None"
    and "cv_Pubkey msg = Some pk"
    and "GetValidatorByConsAddr ctx (GetConsAddress pk) = None"
    and "Denom (cv_Value msg) = BondDenom ctx"
    and "EnsureLength k (cv_Description msg) = None"
    and "case ConsensusParams ctx of None \<Rightarrow> True
         | Some cp \<Rightarrow> (case cp_Validator cp of None \<Rightarrow> True
             | Some vp \<Rightarrow> StringInSlice (pk_Type pk) (PubKeyTypes vp))"
    and "NewValidator k valAddr pk (cv_Description msg) = Inr fresh"
    and "SetInitialCommission k fresh
           (NewCommissionWithTime (Rate (cv_Commission msg)) (MaxRate (cv_Commission msg))
              (MaxChangeRate (cv_Commission msg)) (BlockTime ctx)) = Inr withCommission"
    and "AccAddressFromBech32 k (cv_DelegatorAddress msg) = Inr delegatorAddress"
    and "snd (bankKeeper_DelegateCoinsFromAccountToModule k
                (hooks_AfterValidatorCreated k (external (MultiStore ctx)) valAddr)
                delegatorAddress EpochTempPoolName
                (NewCoins k [NewCoin (BondDenom ctx) (Amount (cv_Value msg))])) = Some err"
  shows "snd (CreateValidator k ctx msg) = (Some MsgCreateValidatorResponse, Some err)
     \<and> GetValidator (fst (CreateValidator k ctx msg)) valAddr =
         Some (withCommission\<lparr>MinSelfDelegation := cv_MinSelfDelegation msg\<rparr>)
     \<and> GetValidatorByConsAddr (fst (CreateValidator k ctx msg)) (GetConsAddress pk) =
         Some (withCommission\<lparr>MinSelfDelegation := cv_MinSelfDelegation msg\<rparr>)
     \<and> epochActions (MultiStore (fst (CreateValidator k ctx msg))) =
         epochActions (MultiStore ctx)"
proof -
  note nv = NewValidator_Inr [OF assms(8)]
  note sc = SetInitialCommission_Inr [OF assms(9)]
  show ?thesis
    using assms nv sc
    by (auto simp: CreateValidator_def Let_def store_defs split: option.splits prod.splits)
qed

theorem CreateValidator_transfer_failure_witness:
  "ValAddressFromBech32 demoKeeper (cv_ValidatorAddress demoCreatePoor) = Inr ''alice''
   \<and> GetValidator demoCtx ''alice'' = None
   \<and> cv_Pubkey demoCreatePoor = Some demoKey
   \<and> GetValidatorByConsAddr demoCtx (GetConsAddress demoKey) = None
   \<and> Denom (cv_Value demoCreatePoor) = BondDenom demoCtx
   \<and> EnsureLength demoKeeper (cv_Description demoCreatePoor) = None
   \<and> ConsensusParams demoCtx = Some \<lparr>cp_Validator = Some \<lparr>PubKeyTypes = [''ed25519'']\<rparr>\<rparr>
   \<and> StringInSlice (pk_Type demoKey) [''ed25519'']
   \<and> NewValidator demoKeeper ''alice'' demoKey (cv_Description demoCreatePoor) = Inr demoFresh
   \<and> SetInitialCommission demoKeeper demoFresh (NewCommissionWithTime 10 20 1 1000000) =
       Inr demoValidator
   \<and> AccAddressFromBech32 demoKeeper (cv_DelegatorAddress demoCreatePoor) = Inr ''alice''
   \<and> snd (bankKeeper_DelegateCoinsFromAccountToModule demoKeeper
            (hooks_AfterValidatorCreated demoKeeper (external (MultiStore demoCtx)) ''alice'')
            ''alice'' EpochTempPoolName
            (NewCoins demoKeeper
               [NewCoin (BondDenom demoCtx) (Amount (cv_Value demoCreatePoor))])) =
       Some (ErrExternal ''insufficient funds'')
   \<and> snd (CreateValidator demoKeeper demoCtx demoCreatePoor) =
       (Some MsgCreateValidatorResponse, Some (ErrExternal ''insufficient funds''))
   \<and> GetValidator (fst (CreateValidator demoKeeper demoCtx demoCreatePoor)) ''alice'' =
       Some demoValidator
   \<and> GetValidatorByConsAddr (fst (CreateValidator demoKeeper demoCtx demoCreatePoor)) ''cons1'' =
       Some demoValidator
   \<and> epochActions (MultiStore (fst (CreateValidator demoKeeper demoCtx demoCreatePoor))) = []"
  using CreateValidator_transfer_failure
    [where k = demoKeeper and ctx = demoCtx and msg = demoCreatePoor and valAddr = "''alice''"
       and pk = demoKey and fresh = demoFresh and withCommission = demoValidator
       and delegatorAddress = "''alice''" and err = "ErrExternal ''insufficient funds''"]
  by (simp add: store_defs record_defs demo_defs demoCreatePoor_def)

text \<open>
  C7. When the operator address of a CreateValidator request decodes to an address that
  has a registered validator, the handler returns no response and the error
  ErrValidatorOwnerExists, and the context it leaves is the context it found: nothing is
  queued, no funds have moved, no validator state is written.
\<close>
theorem CreateValidator_owner_exists:
  assumes "ValAddressFromBech32 k (cv_ValidatorAddress msg) = Inr valAddr"
    and "GetValidator ctx valAddr = Some v"
  shows "CreateValidator k ctx msg = (ctx, None, Some ErrValidatorOwnerExists)"
  using assms by (simp add: CreateValidator_def)

theorem CreateValidator_owner_exists_witness:
  "ValAddressFromBech32 demoKeeper (cv_ValidatorAddress demoCreate) = Inr ''alice''
   \<and> GetValidator demoRegistered ''alice'' = Some demoValidator
   \<and> CreateValidator demoKeeper demoRegistered demoCreate =
       (demoRegistered, None, Some ErrValidatorOwnerExists)"
  using CreateValidator_owner_exists
    [where k = demoKeeper and ctx = demoRegistered and msg = demoCreate
       and valAddr = "''alice''" and v = demoValidator]
  by (simp add: GetValidator_def demoKeeper_def demoBech32_def demoCreate_def
      demoRegistered_def demoCtx_def)

text \<open>
  C8, as amended. When the operator address of a CreateValidator request decodes to an
  address without a registered validator, and the consensus address of its public key
  has a registered validator, the handler returns no response and the error
  ErrValidatorPubKeyExists, and the context it leaves is the context it found.
\<close>
theorem CreateValidator_pubkey_exists:
  assumes "ValAddressFromBech32 k (cv_ValidatorAddress msg) = Inr valAddr"
    and "GetValidator ctx valAddr = None"
    and "cv_Pubkey msg = Some pk"
    and "GetValidatorByConsAddr ctx (GetConsAddress pk) = Some v"
  shows "CreateValidator k ctx msg = (ctx, None, Some ErrValidatorPubKeyExists)"
  using assms by (simp add: CreateValidator_def)

theorem CreateValidator_pubkey_exists_witness:
  "ValAddressFromBech32 demoKeeper (cv_ValidatorAddress demoCreateBob) = Inr ''bob''
   \<and> GetValidator demoRegistered ''bob'' = None
   \<and> cv_Pubkey demoCreateBob = Some demoKey
   \<and> GetValidatorByConsAddr demoRegistered (GetConsAddress demoKey) = Some demoValidator
   \<and> OperatorAddress demoValidator = ''alice''
   \<and> CreateValidator demoKeeper demoRegistered demoCreateBob =
       (demoRegistered, None, Some ErrValidatorPubKeyExists)"
  using CreateValidator_pubkey_exists
    [where k = demoKeeper and ctx = demoRegistered and msg = demoCreateBob
       and valAddr = "''bob''" and pk = demoKey and v = demoValidator]
  by (simp add: GetValidator_def GetValidatorByConsAddr_def GetConsAddress_def demo_defs demoCreateBob_def)

text \<open>
  C8 as stated fails. With Alice's validator registered, her request again (the same
  operator, the same key) carries a public key that is registered, and the handler
  answers ErrValidatorOwnerExists: the operator check comes first.
\<close>
theorem CreateValidator_pubkey_exists_counterexample:
  "cv_Pubkey demoCreate = Some demoKey
   \<and> GetValidatorByConsAddr demoRegistered (GetConsAddress demoKey) = Some demoValidator
   \<and> CreateValidator demoKeeper demoRegistered demoCreate =
       (demoRegistered, None, Some ErrValidatorOwnerExists)
   \<and> kind ErrValidatorOwnerExists \<noteq> ErrValidatorPubKeyExists"
  by (simp add: CreateValidator_def GetValidator_def GetValidatorByConsAddr_def
      GetConsAddress_def demo_defs)

section \<open>Delegating\<close>

text \<open>
  C9, as amended. When the denom of a Delegate request is not the bonding denomination,
  the handler fails and the context it leaves is the context it found: no funds have
  moved into the epoch pool and the queue is unchanged. The error is ErrBadDenom
  (wrapped with the two denoms) when the delegator address decodes, and the decoding
  error when it does not.
\<close>
theorem Delegate_bad_denom:
  assumes "Denom (d_Amount msg) \<noteq> BondDenom ctx"
  shows "fst (Delegate k ctx msg) = ctx
     \<and> snd (Delegate k ctx msg) =
         (Some MsgDelegateResponse,
          Some (case AccAddressFromBech32 k (d_DelegatorAddress msg) of
                  Inl err \<Rightarrow> err
                | Inr delegatorAddress \<Rightarrow>
                    Wrapf ErrBadDenom
                      (''got '' @ Denom (d_Amount msg) @ '', expected '' @ BondDenom ctx)))"
  using assms by (simp add: Delegate_def Let_def split: sum.splits)

theorem Delegate_bad_denom_witness:
  "Denom (d_Amount demoDelegateAtom) \<noteq> BondDenom demoCtx
   \<and> AccAddressFromBech32 demoKeeper (d_DelegatorAddress demoDelegateAtom) = Inr ''alice''
   \<and> fst (Delegate demoKeeper demoCtx demoDelegateAtom) = demoCtx
   \<and> snd (Delegate demoKeeper demoCtx demoDelegateAtom) =
       (Some MsgDelegateResponse, Some (Wrapf ErrBadDenom ''got atom, expected stake''))
   \<and> kind (Wrapf ErrBadDenom ''got atom, expected stake'') = ErrBadDenom"
  using Delegate_bad_denom [of demoDelegateAtom demoCtx demoKeeper]
  by (simp add: BondDenom_def demo_defs)

text \<open>
  C9 as stated fails. A Delegate request for 50 atom whose delegator address does not
  decode has a denom other than the bonding denomination, and the handler answers with
  the decoding error, not with ErrBadDenom: the address is decoded first.
\<close>
theorem Delegate_bad_denom_counterexample:
  "Denom (d_Amount demoDelegateAtomBadAddress) \<noteq> BondDenom demoCtx
   \<and> Delegate demoKeeper demoCtx demoDelegateAtomBadAddress =
       (demoCtx, Some MsgDelegateResponse, Some (ErrExternal ''decoding bech32 failed''))
   \<and> kind (ErrExternal ''decoding bech32 failed'') \<noteq> ErrBadDenom"
  by (simp add: Delegate_def BondDenom_def demo_defs demoDelegateAtomBadAddress_def)

text \<open>
  When the delegator address of a Delegate request decodes, its denom is the bonding
  denomination and the transfer into the epoch pool returns no error, the handler
  returns the empty response and the queue is the queue it found followed by the
  delegate action under the current epoch number.
\<close>
theorem Delegate_transfers_then_enqueues:
  assumes "AccAddressFromBech32 k (d_DelegatorAddress msg) = Inr delegatorAddress"
    and "Denom (d_Amount msg) = BondDenom ctx"
    and "snd (bankKeeper_DelegateCoinsFromAccountToModule k (external (MultiStore ctx))
                delegatorAddress EpochTempPoolName
                (NewCoins k [NewCoin (BondDenom ctx) (Amount (d_Amount msg))])) = None"
  shows "snd (Delegate k ctx msg) = (Some MsgDelegateResponse, None)
     \<and> epochActions (MultiStore (fst (Delegate k ctx msg))) =
         epochActions (MultiStore ctx) @ [(GetEpochNumber ctx, ActDelegate msg)]"
  using assms
  by (auto simp: Delegate_def Let_def store_defs split: option.splits prod.splits)

theorem Delegate_transfers_then_enqueues_witness:
  "AccAddressFromBech32 demoKeeper (d_DelegatorAddress demoDelegateStake) = Inr ''alice''
   \<and> Denom (d_Amount demoDelegateStake) = BondDenom demoCtx
   \<and> snd (Delegate demoKeeper demoCtx demoDelegateStake) = (Some MsgDelegateResponse, None)
   \<and> epochActions (MultiStore (fst (Delegate demoKeeper demoCtx demoDelegateStake))) =
       [(5, ActDelegate demoDelegateStake)]"
  using Delegate_transfers_then_enqueues
    [where k = demoKeeper and ctx = demoCtx and msg = demoDelegateStake
       and delegatorAddress = "''alice''"]
  by (simp add: store_defs record_defs demo_defs demoDelegateStake_def)

text \<open>
  When the transfer of a Delegate request returns an error, the handler returns that
  error and the queue is the queue it found.
\<close>
theorem Delegate_transfer_failure:
  assumes "AccAddressFromBech32 k (d_DelegatorAddress msg) = Inr delegatorAddress"
    and "Denom (d_Amount msg) = BondDenom ctx"
    and "snd (bankKeeper_DelegateCoinsFromAccountToModule k (external (MultiStore ctx))
                delegatorAddress EpochTempPoolName
                (NewCoins k [NewCoin (BondDenom ctx) (Amount (d_Amount msg))])) = Some err"
  shows "snd (Delegate k ctx msg) = (Some MsgDelegateResponse, Some err)
     \<and> epochActions (MultiStore (fst (Delegate k ctx msg))) = epochActions (MultiStore ctx)"
  using assms
  by (auto simp: Delegate_def Let_def store_defs split: option.splits prod.splits)

theorem Delegate_transfer_failure_witness:
  "AccAddressFromBech32 demoKeeper (d_DelegatorAddress demoDelegatePoor) = Inr ''alice''
   \<and> Denom (d_Amount demoDelegatePoor) = BondDenom demoCtx
   \<and> snd (Delegate demoKeeper demoCtx demoDelegatePoor) =
       (Some MsgDelegateResponse, Some (ErrExternal ''insufficient funds''))
   \<and> epochActions (MultiStore (fst (Delegate demoKeeper demoCtx demoDelegatePoor))) = []"
  using Delegate_transfer_failure
    [where k = demoKeeper and ctx = demoCtx and msg = demoDelegatePoor
       and delegatorAddress = "''alice''" and err = "ErrExternal ''insufficient funds''"]
  by (simp add: store_defs record_defs demo_defs demoDelegatePoor_def)

section \<open>Editing a validator\<close>

text \<open>
  EditValidator checks nothing: it saves the edit action under the current epoch number
  and returns the empty response.
\<close>
theorem EditValidator_enqueues:
  "EditValidator k ctx msg =
     (SaveEpochAction ctx (GetEpochNumber ctx) (ActEditValidator msg),
      Some MsgEditValidatorResponse, None)"
  by (simp add: EditValidator_def Let_def)

end
